theory Spec2Isabelle
  imports Complex_Main
begin

section \<open>JavaScript strings and values\<close>

text \<open>
  A JavaScript string is modelled as a \<^typ>\<open>string\<close>, one \<^typ>\<open>char\<close> per code unit
  (code units below 256). A value that may be \<^verbatim>\<open>null\<close> or \<^verbatim>\<open>undefined\<close> is an
  \<^typ>\<open>'a option\<close>. Array positions and lengths are natural numbers.
\<close>

definition startsWith :: "string \<Rightarrow> string \<Rightarrow> bool" where
  "startsWith s p = (take (length p) s = p)"

definition endsWith :: "string \<Rightarrow> string \<Rightarrow> bool" where
  "endsWith s p = (length p \<le> length s \<and> drop (length s - length p) s = p)"

text \<open>\<^verbatim>\<open>s.includes(p)\<close>: \<open>p\<close> occurs in \<open>s\<close> as a contiguous run.\<close>

fun includesStr :: "string \<Rightarrow> string \<Rightarrow> bool" where
  "includesStr [] p = (p = [])"
| "includesStr (c # cs) p = (startsWith (c # cs) p \<or> includesStr cs p)"

text \<open>
  \<^verbatim>\<open>s.split(sep)\<close> for a one-character separator: the segments between the
  separators, never an empty array (\<^verbatim>\<open>''.split(',')\<close> is \<^verbatim>\<open>['']\<close>).
\<close>

fun split :: "char \<Rightarrow> string \<Rightarrow> string list" where
  "split sep [] = [] # []"
| "split sep (c # cs) =
     (if c = sep then [] # split sep cs
      else (case split sep cs of
              [] \<Rightarrow> [c] # []
            | seg # segs \<Rightarrow> (c # seg) # segs))"

text \<open>\<^verbatim>\<open>xs[i]\<close>: \<^verbatim>\<open>undefined\<close> out of range.\<close>

definition elemAt :: "'a list \<Rightarrow> nat \<Rightarrow> 'a option" where
  "elemAt xs i = (if i < length xs then Some (xs ! i) else None)"

text \<open>Truthiness of a possibly undefined string: defined and non-empty.\<close>

definition truthy :: "string option \<Rightarrow> bool" where
  "truthy v = (case v of None \<Rightarrow> False | Some s \<Rightarrow> s \<noteq> [])"

text \<open>\<^verbatim>\<open>v || d\<close> where \<open>d\<close> is a string.\<close>

definition or_default :: "string option \<Rightarrow> string \<Rightarrow> string" where
  "or_default v d = (if truthy v then the v else d)"

text \<open>\<^verbatim>\<open>a || b\<close> where \<open>b\<close> may itself be \<^verbatim>\<open>null\<close>.\<close>

definition or_else :: "string option \<Rightarrow> string option \<Rightarrow> string option" where
  "or_else a b = (if truthy a then a else b)"

text \<open>
  White space as \<^verbatim>\<open>String.prototype.trim\<close> sees it, among the code units below 256:
  tab, line feed, vertical tab, form feed, carriage return, space, no-break space.
\<close>

definition isWhiteSpace :: "char \<Rightarrow> bool" where
  "isWhiteSpace c = (of_char c \<in> {9, 10, 11, 12, 13, 32, 160 :: nat})"

definition trim :: "string \<Rightarrow> string" where
  "trim s = rev (dropWhile isWhiteSpace (rev (dropWhile isWhiteSpace s)))"

text \<open>The decimal digits of a natural number, as a template literal prints it.\<close>

definition digit :: "nat \<Rightarrow> char" where
  "digit d = ''0123456789'' ! d"

fun toString :: "nat \<Rightarrow> string" where
  "toString n = (if n < 10 then [digit n] else toString (n div 10) @ [digit (n mod 10)])"

declare toString.simps [simp del]

section \<open>constants/messages.js\<close>

definition CORS_ERROR :: string where
  "CORS_ERROR = ''Unable to fetch from URL due to CORS restrictions. The server must allow cross-origin requests.''"

definition TIMEOUT_ERROR :: string where
  "TIMEOUT_ERROR = ''Request timed out. Please try again.''"

definition FETCH_FAILED :: string where
  "FETCH_FAILED = ''Failed to fetch SVG from URL. Please check the URL and try again.''"

definition PARSE_ERROR :: string where
  "PARSE_ERROR = ''Failed to parse SVG content. Please ensure it is valid SVG.''"

definition NETWORK_ERROR :: string where
  "NETWORK_ERROR = ''Network error occurred. Please check your connection and try again.''"

definition ZIP_GENERATION_FAILED :: string where
  "ZIP_GENERATION_FAILED = ''Failed to generate ZIP file. Please try downloading images individually.''"

section \<open>lib/errorHandler.js\<close>

text \<open>
  The error classes: \<^verbatim>\<open>ValidationError\<close>, \<^verbatim>\<open>FetchError\<close> and \<^verbatim>\<open>ParseError\<close> extend
  \<^verbatim>\<open>Error\<close>; \<^verbatim>\<open>TypeError\<close> is the built-in one; \<open>Error\<close> stands for every other
  error object. Each carries its \<^verbatim>\<open>message\<close> (the empty string when none was given);
  the fields \<^verbatim>\<open>field\<close>, \<^verbatim>\<open>url\<close> and \<^verbatim>\<open>statusCode\<close> are kept as the constructors
  store them.
\<close>

datatype error =
    ValidationError string "string option"
  | FetchError string "string option" "nat option"
  | ParseError string
  | TypeError string
  | Error string

fun handleError :: "error \<Rightarrow> string" where
  "handleError (ValidationError m f) = m"
| "handleError (FetchError m u c) =
     (if includesStr m ''CORS'' \<or> includesStr m ''cors'' then CORS_ERROR
      else if includesStr m ''timeout'' \<or> includesStr m ''Timeout'' then TIMEOUT_ERROR
      else or_default (Some m) FETCH_FAILED)"
| "handleError (ParseError m) = PARSE_ERROR"
| "handleError (TypeError m) =
     (if includesStr m ''fetch'' then NETWORK_ERROR
      else or_default (Some m) ''An unexpected error occurred. Please try again.'')"
| "handleError (Error m) =
     or_default (Some m) ''An unexpected error occurred. Please try again.''"

section \<open>lib/validators.js\<close>

record validation =
  valid :: bool
  error :: "string option"

definition isValidSvg :: "string option \<Rightarrow> validation" where
  "isValidSvg content =
     (if \<not> truthy content \<or> length (trim (the content)) = 0
        then \<lparr>valid = False, error = Some ''SVG content is empty''\<rparr>
      else if \<not> includesStr (the content) ''<svg''
        then \<lparr>valid = False, error = Some ''Content does not appear to be valid SVG''\<rparr>
      else \<lparr>valid = True, error = None\<rparr>)"

text \<open>A \<^verbatim>\<open>File\<close> handle: the three fields the validator reads.\<close>

record file_handle =
  file_size :: nat
  file_type :: string
  file_name :: string

definition maxSize :: nat where
  "maxSize = 10 * 1024 * 1024"

definition validTypes :: "string list" where
  "validTypes = [''image/svg+xml'', ''text/xml'', ''application/xml'']"

definition isValidFile :: "file_handle option \<Rightarrow> validation" where
  "isValidFile f =
     (case f of
        None \<Rightarrow> \<lparr>valid = False, error = Some ''No file provided''\<rparr>
      | Some fl \<Rightarrow>
          if file_size fl > maxSize
            then \<lparr>valid = False, error = Some ''File size exceeds 10MB limit''\<rparr>
          else if file_type fl \<notin> set validTypes \<and> \<not> endsWith (file_name fl) ''.svg''
            then \<lparr>valid = False, error = Some ''File must be an SVG file''\<rparr>
          else \<lparr>valid = True, error = None\<rparr>)"

section \<open>The document tree\<close>

text \<open>
  What \<^verbatim>\<open>DOMParser\<close> hands back, as far as the extractor looks at it: a tree of
  elements, each with its local name, its attributes by qualified name (in source
  order) and its child elements. The parser itself belongs to the browser; the
  extractor takes it as the parameter \<open>parseFromString\<close>.
\<close>

datatype element = Element (localName: string) (attributes: "(string \<times> string) list")
  (children: "element list")

datatype document = Document (documentElement: element)

text \<open>\<^verbatim>\<open>el.getAttribute(name)\<close>: the first attribute of that name, \<^verbatim>\<open>null\<close> if none.\<close>

definition getAttribute :: "element \<Rightarrow> string \<Rightarrow> string option" where
  "getAttribute el qname = map_of (attributes el) qname"

text \<open>An element and its descendants in document order (pre-order).\<close>

fun descendants :: "element \<Rightarrow> element list" where
  "descendants (Element n as cs) = Element n as cs # concat (map descendants cs)"

text \<open>A type selector matches on the local name, whatever the namespace prefix.\<close>

definition querySelectorAll :: "document \<Rightarrow> string \<Rightarrow> element list" where
  "querySelectorAll doc sel =
     filter (\<lambda>el. localName el = sel) (descendants (documentElement doc))"

definition querySelector :: "document \<Rightarrow> string \<Rightarrow> element option" where
  "querySelector doc sel =
     find (\<lambda>el. localName el = sel) (descendants (documentElement doc))"

section \<open>lib/svgExtractor.js\<close>

text \<open>
  An image object. Every field may be missing on an object a caller builds by hand
  (the archive packager reads \<^verbatim>\<open>dataUrl\<close> and \<^verbatim>\<open>format\<close> only); the extractor sets
  all five.
\<close>

record image =
  dataUrl :: "string option"
  format :: "string option"
  index :: "nat option"
  img_size :: "nat option"
  img_id :: "string option"

text \<open>
  The body of the \<^verbatim>\<open>try\<close> block for one element whose reference is \<open>href\<close>, at
  position \<open>index\<close> of the node list, with \<open>t\<close> the value of \<^verbatim>\<open>Date.now()\<close>. Reading
  \<^verbatim>\<open>.split\<close> of \<^verbatim>\<open>undefined\<close> would throw a \<^verbatim>\<open>TypeError\<close>.
\<close>

definition buildImage :: "nat \<Rightarrow> string \<Rightarrow> nat \<Rightarrow> error + image" where
  "buildImage t href index' =
     (case elemAt (split CHR '';'' href) 0 of
        None \<Rightarrow> Inl (TypeError ''Cannot read properties of undefined (reading 'split')'')
      | Some head \<Rightarrow>
          let format' = elemAt (split CHR '':'' head) 1;
              base64Data = or_default (elemAt (split CHR '','' href) 1) [];
              estimatedSize = (length base64Data * 3) div 4;
              id' = ''img-'' @ toString t @ ''-'' @ toString index'
          in Inr \<lparr>dataUrl = Some href, format = format', index = Some index',
                  img_size = Some estimatedSize, img_id = Some id'\<rparr>)"

text \<open>
  The callback of \<^verbatim>\<open>imageElements.forEach\<close>: the array \<open>extractedImages\<close> after the
  element \<open>img\<close> at position \<open>index\<close> has been looked at. A failure of the \<^verbatim>\<open>try\<close>
  block is logged and the array is left as it was.
\<close>

definition processImage :: "(nat \<Rightarrow> nat) \<Rightarrow> element \<Rightarrow> nat \<Rightarrow> image list \<Rightarrow> image list" where
  "processImage now img index' extractedImages =
     (let href = or_else (getAttribute img ''href'') (getAttribute img ''xlink:href'')
      in if truthy href \<and> startsWith (the href) ''data:image/''
         then (case buildImage (now index') (the href) index' of
                 Inl err \<Rightarrow> extractedImages
               | Inr im \<Rightarrow> extractedImages @ [im])
         else extractedImages)"

fun forEachImage :: "(nat \<Rightarrow> nat) \<Rightarrow> element list \<Rightarrow> nat \<Rightarrow> image list \<Rightarrow> image list" where
  "forEachImage now [] index' extractedImages = extractedImages"
| "forEachImage now (img # rest) index' extractedImages =
     forEachImage now rest (Suc index') (processImage now img index' extractedImages)"

text \<open>
  \<open>parseFromString\<close> is the browser's parser at type \<^verbatim>\<open>image/svg+xml\<close>; \<open>now i\<close> is
  what \<^verbatim>\<open>Date.now()\<close> returns while element \<open>i\<close> is processed.
\<close>

definition extractImages ::
  "(string \<Rightarrow> document) \<Rightarrow> (nat \<Rightarrow> nat) \<Rightarrow> string option \<Rightarrow> error + image list" where
  "extractImages parseFromString now svgContent =
     (let validation = isValidSvg svgContent
      in if \<not> valid validation
         then Inl (Error (case error validation of None \<Rightarrow> ''null'' | Some msg \<Rightarrow> msg))
         else
           let doc = parseFromString (the svgContent)
           in (case querySelector doc ''parsererror'' of
                 Some parserError \<Rightarrow>
                   Inl (ParseError ''Failed to parse SVG content. The SVG may be malformed.'')
               | None \<Rightarrow>
                   Inr (forEachImage now (querySelectorAll doc ''image'') 0 [])))"

definition countImages :: "(string \<Rightarrow> document) \<Rightarrow> (nat \<Rightarrow> nat) \<Rightarrow> string option \<Rightarrow> nat" where
  "countImages parseFromString now svgContent =
     (case extractImages parseFromString now svgContent of
        Inr images \<Rightarrow> length images
      | Inl err \<Rightarrow> 0)"

section \<open>lib/zipGenerator.js\<close>

text \<open>
  The index is an array position. JavaScript computes \<^verbatim>\<open>index + 1\<close> in double precision
  and prints the result; for an index below \<open>2\<^sup>5\<^sup>3\<close> that is the exact sum in decimal
  digits, which is what the model computes. Statements about \<open>generateFilename\<close> at a
  variable index carry that bound.
\<close>

definition generateFilename :: "image \<Rightarrow> nat \<Rightarrow> string" where
  "generateFilename im index' =
     (let format' = or_default (format im) ''image/png'';
          ext = or_default (elemAt (split CHR ''/'' format') 1) ''png''
      in ''image-'' @ toString (index' + 1) @ ''.'' @ ext)"

text \<open>The predicate of \<^verbatim>\<open>images.filter\<close>: the image has base64 data.\<close>

definition hasBase64Data :: "image \<Rightarrow> bool" where
  "hasBase64Data im =
     (let base64Data = (case dataUrl im of None \<Rightarrow> None | Some u \<Rightarrow> elemAt (split CHR '','' u) 1)
      in if \<not> truthy base64Data \<or> length (the base64Data) = 0 then False else True)"

text \<open>\<^verbatim>\<open>Math.round\<close> on a progress percentage, read as a real number.\<close>

definition Math_round :: "real \<Rightarrow> int" where
  "Math_round x = \<lfloor>x + 1 / 2\<rfloor>"

text \<open>
  The loop \<^verbatim>\<open>validImages.forEach\<close>: each image is added to the archive under its file
  name with the second comma-separated segment of its data URL (\<^verbatim>\<open>undefined\<close> if there
  is none). \<open>files\<close> are the \<^verbatim>\<open>zip.file\<close> calls made so far. Reading \<^verbatim>\<open>.split\<close> of a
  missing \<^verbatim>\<open>dataUrl\<close> would throw a \<^verbatim>\<open>TypeError\<close>.
\<close>

fun addFiles ::
  "image list \<Rightarrow> nat \<Rightarrow> (string \<times> string option) list
     \<Rightarrow> error + (string \<times> string option) list" where
  "addFiles [] index' files = Inr files"
| "addFiles (im # rest) index' files =
     (let filename = generateFilename im index'
      in case dataUrl im of
           None \<Rightarrow> Inl (TypeError ''Cannot read properties of undefined (reading 'split')'')
         | Some u \<Rightarrow>
             addFiles rest (Suc index') (files @ [(filename, elemAt (split CHR '','' u) 1)]))"

text \<open>
  The archive library is a parameter: \<open>generateAsync files\<close>, for the files added, gives
  the percentages of the progress events it emits and then either the error it rejects
  with or the blob.

  The body of the \<^verbatim>\<open>try\<close> block of \<^verbatim>\<open>generateZip\<close>: the values passed to the progress
  callback (none when no callback was given) and the outcome.
\<close>

definition zipImages ::
  "((string \<times> string option) list \<Rightarrow> real list \<times> (error + 'blob)) \<Rightarrow> image list \<Rightarrow> bool
     \<Rightarrow> int list \<times> (error + 'blob)" where
  "zipImages generateAsync images progressCallback =
     (let validImages = filter hasBase64Data images
      in if length validImages = 0
         then ([], Inl (Error ''No valid images to include in ZIP''))
         else (case addFiles validImages 0 [] of
                 Inl err \<Rightarrow> ([], Inl err)
               | Inr files \<Rightarrow>
                   let (percents, outcome) = generateAsync files
                   in (if progressCallback then map Math_round percents else [], outcome)))"

text \<open>
  \<^verbatim>\<open>generateZip\<close>: \<open>images\<close> is \<open>None\<close> for \<^verbatim>\<open>null\<close> or \<^verbatim>\<open>undefined\<close>. Whatever the
  \<^verbatim>\<open>try\<close> block throws is logged and replaced by the one generic error.
\<close>

definition generateZip ::
  "((string \<times> string option) list \<Rightarrow> real list \<times> (error + 'blob)) \<Rightarrow> image list option \<Rightarrow> bool
     \<Rightarrow> int list \<times> (error + 'blob)" where
  "generateZip generateAsync images progressCallback =
     (if images = None \<or> length (the images) = 0
      then ([], Inl (Error ''No images provided for ZIP generation''))
      else (case zipImages generateAsync (the images) progressCallback of
              (calls, Inl err) \<Rightarrow> (calls, Inl (Error ZIP_GENERATION_FAILED))
            | (calls, Inr blob) \<Rightarrow> (calls, Inr blob)))"

section \<open>Notions used in the statements\<close>

text \<open>The reference the extractor reads off an element, and its test for an embedded image.\<close>

definition imageRef :: "element \<Rightarrow> string option" where
  "imageRef img = or_else (getAttribute img ''href'') (getAttribute img ''xlink:href'')"

definition isEmbedded :: "element \<Rightarrow> bool" where
  "isEmbedded img = (truthy (imageRef img) \<and> startsWith (the (imageRef img)) ''data:image/'')"

text \<open>The specification's wording: the text after the first separator (empty if there is none).\<close>

definition afterFirst :: "char \<Rightarrow> string \<Rightarrow> string" where
  "afterFirst sep s = drop 1 (dropWhile (\<lambda>c. c \<noteq> sep) s)"

text \<open>\<^verbatim>\<open>e instanceof ValidationError\<close>.\<close>

fun isValidationError :: "error \<Rightarrow> bool" where
  "isValidationError (ValidationError m f) = True"
| "isValidationError e = False"

text \<open>The fallback of the error translator.\<close>

definition UNEXPECTED_ERROR :: string where
  "UNEXPECTED_ERROR = ''An unexpected error occurred. Please try again.''"

text \<open>
  The part of a MIME type the file name policy uses: the text between the first
  \<^verbatim>\<open>/\<close> and the next one (or the end); empty when there is no \<^verbatim>\<open>/\<close>.
\<close>

definition subtype :: "string option \<Rightarrow> string" where
  "subtype fmt =
     takeWhile (\<lambda>c. c \<noteq> CHR ''/'') (afterFirst CHR ''/'' (case fmt of None \<Rightarrow> [] | Some f \<Rightarrow> f))"

text \<open>
  The record the extractor builds for the reference \<open>href\<close> at position \<open>j\<close> when the
  clock reads \<open>t\<close>, written out field by field, and the record for a numbered element.
\<close>

definition builtImage :: "nat \<Rightarrow> string \<Rightarrow> nat \<Rightarrow> image" where
  "builtImage t href j =
     \<lparr>dataUrl = Some href,
      format = elemAt (split CHR '':'' (takeWhile (\<lambda>c. c \<noteq> CHR '';'') href)) 1,
      index = Some j,
      img_size = Some ((length (takeWhile (\<lambda>c. c \<noteq> CHR '','') (afterFirst CHR '','' href)) * 3) div 4),
      img_id = Some (''img-'' @ toString t @ ''-'' @ toString j)\<rparr>"

definition extracted :: "(nat \<Rightarrow> nat) \<Rightarrow> nat \<times> element \<Rightarrow> image" where
  "extracted now p = builtImage (now (fst p)) (the (imageRef (snd p))) (fst p)"

subsection \<open>Sample inputs\<close>

text \<open>
  Sample SVG texts, each with the tree a conforming XML parser builds from it, a parser
  that knows these texts (and reports a parse error on any other), and a clock that
  stands still.
\<close>

definition twoImagesSvg :: string where
  "twoImagesSvg =
     ''<svg><image href='data:image/png;base64,ABC'/><image href='data:image/png;base64,XYZ'/></svg>''"

definition twoImagesDoc :: document where
  "twoImagesDoc = Document (Element ''svg'' []
     [Element ''image'' [(''href'', ''data:image/png;base64,ABC'')] [],
      Element ''image'' [(''href'', ''data:image/png;base64,XYZ'')] []])"

definition externalFirstSvg :: string where
  "externalFirstSvg =
     ''<svg><image href='https://example.com/image.png'/><image href='data:image/png;base64,ABC123'/></svg>''"

definition externalFirstDoc :: document where
  "externalFirstDoc = Document (Element ''svg'' []
     [Element ''image'' [(''href'', ''https://example.com/image.png'')] [],
      Element ''image'' [(''href'', ''data:image/png;base64,ABC123'')] []])"

definition emptyHrefSvg :: string where
  "emptyHrefSvg =
     ''<svg xmlns:xlink='http://www.w3.org/1999/xlink'><image href='' @ [CHR 0x22, CHR 0x22] @
     '' xlink:href='data:image/png;base64,ABC123'/></svg>''"

definition emptyHrefDoc :: document where
  "emptyHrefDoc = Document (Element ''svg'' [(''xmlns:xlink'', ''http://www.w3.org/1999/xlink'')]
     [Element ''image'' [(''href'', []), (''xlink:href'', ''data:image/png;base64,ABC123'')] []])"

text \<open>An image whose payload is the base64 text of 68 bytes (92 characters).\<close>

definition payload68 :: string where
  "payload68 =
     ''iVBORw0KGgoAAAANSUhEUgAAAAEAAAABCAYAAAAfFcSJAAAADUlEQVR42mP8z8DwHwAFBQIAX8jx0gAAAABJRU5ErkI=''"

definition pixelSvg :: string where
  "pixelSvg = ''<svg><image href='data:image/png;base64,'' @ payload68 @ '''/></svg>''"

definition pixelDoc :: document where
  "pixelDoc = Document (Element ''svg'' []
     [Element ''image'' [(''href'', ''data:image/png;base64,'' @ payload68)] []])"

definition malformedSvg :: string where
  "malformedSvg = ''<svg><image href='data:image/png;base64,ABC'></svg''"

definition malformedDoc :: document where
  "malformedDoc = Document (Element ''parsererror'' [] [])"

definition sampleParser :: "string \<Rightarrow> document" where
  "sampleParser text =
     (if text = twoImagesSvg then twoImagesDoc
      else if text = externalFirstSvg then externalFirstDoc
      else if text = emptyHrefSvg then emptyHrefDoc
      else if text = pixelSvg then pixelDoc
      else malformedDoc)"

definition clockAt :: "nat \<Rightarrow> nat \<Rightarrow> nat" where
  "clockAt t i = t"

section \<open>Facts about the string operations\<close>

lemma startsWith_iff: "startsWith s p \<longleftrightarrow> (\<exists>b. s = p @ b)"
proof
  assume "startsWith s p"
  then have "s = p @ drop (length p) s"
    unfolding startsWith_def by (metis append_take_drop_id)
  then show "\<exists>b. s = p @ b" ..
next
  assume "\<exists>b. s = p @ b"
  then show "startsWith s p" unfolding startsWith_def by auto
qed

lemma endsWith_iff: "endsWith s p \<longleftrightarrow> (\<exists>a. s = a @ p)"
proof
  assume e: "endsWith s p"
  then have "s = take (length s - length p) s @ p"
    unfolding endsWith_def by (metis append_take_drop_id)
  then show "\<exists>a. s = a @ p" ..
next
  assume "\<exists>a. s = a @ p"
  then show "endsWith s p" unfolding endsWith_def by auto
qed

lemma includesStr_iff: "includesStr s p \<longleftrightarrow> (\<exists>a b. s = a @ p @ b)"
proof (induction s)
  case Nil
  then show ?case by auto
next
  case (Cons c cs)
  show ?case
  proof
    assume "includesStr (c # cs) p"
    then consider "startsWith (c # cs) p" | "includesStr cs p" by auto
    then show "\<exists>a b. c # cs = a @ p @ b"
    proof cases
      case 1
      then obtain b where "c # cs = p @ b" using startsWith_iff by blast
      then have "c # cs = [] @ p @ b" by simp
      then show ?thesis by blast
    next
      case 2
      then obtain a b where "cs = a @ p @ b" using Cons.IH by blast
      then have "c # cs = (c # a) @ p @ b" by simp
      then show ?thesis by blast
    qed
  next
    assume "\<exists>a b. c # cs = a @ p @ b"
    then obtain a b where ab: "c # cs = a @ p @ b" by blast
    show "includesStr (c # cs) p"
    proof (cases a)
      case Nil
      with ab have "startsWith (c # cs) p" using startsWith_iff by auto
      then show ?thesis by simp
    next
      case (Cons x xs)
      with ab have "cs = xs @ p @ b" by simp
      then have "includesStr cs p" using Cons.IH by blast
      then show ?thesis by simp
    qed
  qed
qed

lemma split_unfold:
  "split sep s =
     takeWhile (\<lambda>c. c \<noteq> sep) s #
       (case dropWhile (\<lambda>c. c \<noteq> sep) s of [] \<Rightarrow> [] | c # r \<Rightarrow> split sep r)"
proof (induction s)
  case Nil
  show ?case by simp
next
  case (Cons c cs)
  show ?case
  proof (cases "c = sep")
    case True
    then show ?thesis by simp
  next
    case False
    have "split sep (c # cs) = (case split sep cs of [] \<Rightarrow> [c] # [] | seg # segs \<Rightarrow> (c # seg) # segs)"
      using False by simp
    also have "\<dots> = (c # takeWhile (\<lambda>c. c \<noteq> sep) cs) #
        (case dropWhile (\<lambda>c. c \<noteq> sep) cs of [] \<Rightarrow> [] | c # r \<Rightarrow> split sep r)"
      by (subst Cons.IH) simp
    finally show ?thesis using False by simp
  qed
qed

lemma elemAt_0_split: "elemAt (split sep s) 0 = Some (takeWhile (\<lambda>c. c \<noteq> sep) s)"
  by (subst split_unfold) (simp add: elemAt_def)

lemma elemAt_1_split:
  "elemAt (split sep s) 1 =
     (case dropWhile (\<lambda>c. c \<noteq> sep) s of [] \<Rightarrow> None
      | c # r \<Rightarrow> Some (takeWhile (\<lambda>c. c \<noteq> sep) r))"
proof (cases "dropWhile (\<lambda>c. c \<noteq> sep) s")
  case Nil
  have "split sep s = [takeWhile (\<lambda>c. c \<noteq> sep) s]"
    by (subst split_unfold) (simp only: Nil list.case)
  then have "elemAt (split sep s) 1 = None"
    by (simp add: elemAt_def)
  then show ?thesis by (simp only: Nil list.case)
next
  case (Cons c r)
  have "split sep s = takeWhile (\<lambda>c. c \<noteq> sep) s # split sep r"
    by (subst split_unfold) (simp only: Cons list.case)
  then have "elemAt (split sep s) 1 = elemAt (split sep r) 0"
    by (simp add: elemAt_def)
  then show ?thesis by (simp only: Cons list.case elemAt_0_split)
qed

lemma toString_digit: "n < 10 \<Longrightarrow> toString n = [digit n]"
  by (subst toString.simps) simp

lemma toString_more: "10 \<le> n \<Longrightarrow> toString n = toString (n div 10) @ [digit (n mod 10)]"
  by (subst toString.simps) simp

lemma segment_after:
  "or_default (elemAt (split sep s) (Suc 0)) d =
     (if takeWhile (\<lambda>c. c \<noteq> sep) (afterFirst sep s) = [] then d
      else takeWhile (\<lambda>c. c \<noteq> sep) (afterFirst sep s))"
proof (cases "dropWhile (\<lambda>c. c \<noteq> sep) s")
  case Nil
  have "elemAt (split sep s) (Suc 0) = None"
    by (simp only: elemAt_1_split Nil list.case flip: One_nat_def)
  moreover have "afterFirst sep s = []"
    unfolding afterFirst_def Nil by simp
  ultimately show ?thesis
    by (simp add: or_default_def truthy_def)
next
  case (Cons c r)
  have "elemAt (split sep s) (Suc 0) = Some (takeWhile (\<lambda>c. c \<noteq> sep) r)"
    by (simp only: elemAt_1_split Cons list.case flip: One_nat_def)
  moreover have "afterFirst sep s = r"
    unfolding afterFirst_def Cons by simp
  ultimately show ?thesis
    by (simp add: or_default_def truthy_def)
qed

lemma trim_Nil_iff: "trim s = [] \<longleftrightarrow> (\<forall>c\<in>set s. isWhiteSpace c)"
proof
  assume "\<forall>c\<in>set s. isWhiteSpace c"
  then have "dropWhile isWhiteSpace s = []"
    by (rule dropWhile_eq_Nil_conv [THEN iffD2])
  then show "trim s = []"
    by (simp only: trim_def rev.simps dropWhile.simps)
next
  assume t: "trim s = []"
  let ?r = "dropWhile isWhiteSpace s"
  from t have "rev (dropWhile isWhiteSpace (rev ?r)) = []"
    by (simp only: trim_def)
  then have "dropWhile isWhiteSpace (rev ?r) = []"
    by (simp only: rev_is_Nil_conv)
  then have "\<forall>c\<in>set (rev ?r). isWhiteSpace c"
    by (rule dropWhile_eq_Nil_conv [THEN iffD1])
  then have all: "\<forall>c\<in>set ?r. isWhiteSpace c"
    by (simp only: set_rev)
  have "?r = []"
  proof (rule ccontr)
    assume ne: "?r \<noteq> []"
    then have "\<not> isWhiteSpace (hd ?r)" by (rule hd_dropWhile)
    moreover have "hd ?r \<in> set ?r" using ne by (rule hd_in_set)
    ultimately show False using all by blast
  qed
  then show "\<forall>c\<in>set s. isWhiteSpace c"
    by (rule dropWhile_eq_Nil_conv [THEN iffD1])
qed

section \<open>Facts about validation, extraction and packaging\<close>

lemma isValidSvg_empty:
  "\<forall>c\<in>set s. isWhiteSpace c \<Longrightarrow>
     isValidSvg (Some s) = \<lparr>valid = False, error = Some ''SVG content is empty''\<rparr>"
  using trim_Nil_iff [of s] by (simp add: isValidSvg_def)

lemma isValidSvg_not_svg:
  assumes "\<exists>c\<in>set s. \<not> isWhiteSpace c" and "\<not> includesStr s ''<svg''"
  shows "isValidSvg (Some s) = \<lparr>valid = False, error = Some ''Content does not appear to be valid SVG''\<rparr>"
proof -
  have "trim s \<noteq> []" using assms(1) trim_Nil_iff [of s] by blast
  moreover have "s \<noteq> []" using assms(1) by auto
  ultimately show ?thesis using assms(2)
    by (simp add: isValidSvg_def truthy_def)
qed

lemma buildImage_eq: "buildImage t href j = Inr (builtImage t href j)"
proof -
  have "or_default (elemAt (split CHR '','' href) (Suc 0)) [] =
      takeWhile (\<lambda>c. c \<noteq> CHR '','') (afterFirst CHR '','' href)"
    by (simp add: segment_after)
  then show ?thesis
    by (simp add: buildImage_def builtImage_def elemAt_0_split Let_def)
qed

lemma processImage_eq:
  "processImage now img j acc =
     (if isEmbedded img then acc @ [extracted now (j, img)] else acc)"
  by (simp add: processImage_def isEmbedded_def imageRef_def extracted_def buildImage_eq Let_def)

lemma forEachImage_eq:
  "forEachImage now els j acc =
     acc @ map (extracted now) (filter (isEmbedded \<circ> snd) (enumerate j els))"
proof (induction els arbitrary: j acc)
  case Nil
  show ?case by simp
next
  case (Cons img rest)
  show ?case
    by (simp add: Cons.IH processImage_eq)
qed

lemma extractImages_Inr:
  assumes "extractImages parseFromString now content = Inr images"
  shows "images = map (extracted now)
           (filter (isEmbedded \<circ> snd)
              (enumerate 0 (querySelectorAll (parseFromString (the content)) ''image'')))"
  using assms
  by (simp add: extractImages_def Let_def forEachImage_eq split: if_splits option.splits)

lemma snd_filter_enumerate:
  "map snd (filter (P \<circ> snd) (enumerate j xs)) = filter P xs"
  by (induction xs arbitrary: j) simp_all

lemma fst_filter_enumerate_sorted:
  "sorted_wrt (<) (map fst (filter Q (enumerate j xs)))"
proof -
  have "sorted_wrt (<) (map fst (enumerate j xs))"
    by (simp add: map_fst_enumerate)
  then have "sorted_wrt (\<lambda>a b. fst a < fst b) (enumerate j xs)"
    by (simp only: sorted_wrt_map)
  then have "sorted_wrt (\<lambda>a b. fst a < fst b) (filter Q (enumerate j xs))"
    by (rule sorted_wrt_filter)
  then show ?thesis by (simp only: sorted_wrt_map)
qed

lemma index_extracted: "index (extracted now p) = Some (fst p)"
  by (simp add: extracted_def builtImage_def)

lemma dataUrl_extracted: "isEmbedded (snd p) \<Longrightarrow> dataUrl (extracted now p) = imageRef (snd p)"
  by (auto simp: extracted_def builtImage_def isEmbedded_def truthy_def split: option.splits)

lemma generateZip_all_invalid:
  assumes "images \<noteq> []" and "\<forall>im\<in>set images. \<not> hasBase64Data im"
  shows "generateZip generateAsync (Some images) progressCallback =
           ([], Inl (Error ZIP_GENERATION_FAILED))"
proof -
  have "filter hasBase64Data images = []" using assms(2) by simp
  then have "zipImages generateAsync images progressCallback =
      ([], Inl (Error ''No valid images to include in ZIP''))"
    by (simp add: zipImages_def)
  then show ?thesis using assms(1) by (simp add: generateZip_def)
qed

text \<open>
  What reaches the progress callback: on success the archive library was run on the
  files added, and the callback saw the rounded percentage of each of its events.
\<close>

lemma generateZip_progress:
  assumes "generateZip generateAsync images True = (calls, Inr blob)"
  shows "\<exists>files percents. generateAsync files = (percents, Inr blob) \<and>
           calls = map Math_round percents"
  using assms
  by (auto simp: generateZip_def zipImages_def Let_def split: if_splits prod.splits sum.splits)

section \<open>The error translator\<close>

text \<open>
  Claim C4. \<open>handleError\<close> is defined on every error value. A \<open>ValidationError\<close> is
  translated to its own message. A \<open>FetchError\<close> whose message contains \<^verbatim>\<open>CORS\<close> or
  \<^verbatim>\<open>cors\<close> gives the CORS guidance (also when it mentions a timeout as well); otherwise
  one whose message contains \<^verbatim>\<open>timeout\<close> or \<^verbatim>\<open>Timeout\<close> gives the timeout guidance;
  any other \<open>FetchError\<close> gives its message, or the generic fetch failure text when the
  message is empty. A \<open>ParseError\<close> gives the fixed parse guidance whatever its message.
  A \<open>TypeError\<close> mentioning \<^verbatim>\<open>fetch\<close> gives the network error text. Every other error
  gives its own message, or the fixed fallback when the message is empty.
\<close>

theorem handleError_cases:
  "handleError (ValidationError m field) = m \<and>
   (includesStr mc ''CORS'' \<or> includesStr mc ''cors'' \<longrightarrow>
      handleError (FetchError mc url code) = CORS_ERROR) \<and>
   (\<not> includesStr mt ''CORS'' \<and> \<not> includesStr mt ''cors'' \<and>
    (includesStr mt ''timeout'' \<or> includesStr mt ''Timeout'') \<longrightarrow>
      handleError (FetchError mt url code) = TIMEOUT_ERROR) \<and>
   (\<not> includesStr mo ''CORS'' \<and> \<not> includesStr mo ''cors'' \<and>
    \<not> includesStr mo ''timeout'' \<and> \<not> includesStr mo ''Timeout'' \<longrightarrow>
      handleError (FetchError mo url code) = (if mo = [] then FETCH_FAILED else mo)) \<and>
   handleError (ParseError mp) = PARSE_ERROR \<and>
   (includesStr mf ''fetch'' \<longrightarrow> handleError (TypeError mf) = NETWORK_ERROR) \<and>
   (\<not> includesStr mg ''fetch'' \<longrightarrow>
      handleError (TypeError mg) = (if mg = [] then UNEXPECTED_ERROR else mg)) \<and>
   handleError (Error me) = (if me = [] then UNEXPECTED_ERROR else me)"
  by (simp add: or_default_def truthy_def UNEXPECTED_ERROR_def)

theorem handleError_cases_witness:
  "handleError (FetchError ''CORS policy blocked'' None None) = CORS_ERROR \<and>
   handleError (FetchError ''Request timeout'' None None) = TIMEOUT_ERROR \<and>
   handleError (FetchError ''HTTP 404: Not Found'' None None) = ''HTTP 404: Not Found'' \<and>
   handleError (TypeError ''fetch failed'') = NETWORK_ERROR \<and>
   handleError (TypeError ''x is not a function'') = ''x is not a function''"
  using handleError_cases
    [of _ _ "''CORS policy blocked''" None None "''Request timeout''" "''HTTP 404: Not Found''"
        _ "''fetch failed''" "''x is not a function''" _]
  by (simp add: startsWith_def)

section \<open>The file validator\<close>

text \<open>
  Claim C6. \<open>isValidFile\<close> answers \<^verbatim>\<open>No file provided\<close> for an absent handle; otherwise
  \<^verbatim>\<open>File size exceeds 10MB limit\<close> when the size is above 10,485,760 bytes; otherwise
  \<^verbatim>\<open>File must be an SVG file\<close> unless the declared type is one of
  \<^verbatim>\<open>image/svg+xml\<close>, \<^verbatim>\<open>text/xml\<close>, \<^verbatim>\<open>application/xml\<close> or the name ends in \<^verbatim>\<open>.svg\<close>;
  otherwise it answers valid with no error. A handle of 11,534,336 bytes of type
  \<^verbatim>\<open>image/svg+xml\<close> fails with the size message, and one of 100 bytes with an empty type
  and a name ending in \<^verbatim>\<open>.svg\<close> is valid.
\<close>

theorem isValidFile_cases:
  "isValidFile None = \<lparr>valid = False, error = Some ''No file provided''\<rparr> \<and>
   (file_size f1 > 10485760 \<longrightarrow>
      isValidFile (Some f1) = \<lparr>valid = False, error = Some ''File size exceeds 10MB limit''\<rparr>) \<and>
   (file_size f2 \<le> 10485760 \<and>
    file_type f2 \<notin> {''image/svg+xml'', ''text/xml'', ''application/xml''} \<and>
    \<not> endsWith (file_name f2) ''.svg'' \<longrightarrow>
      isValidFile (Some f2) = \<lparr>valid = False, error = Some ''File must be an SVG file''\<rparr>) \<and>
   (file_size f3 \<le> 10485760 \<and>
    (file_type f3 \<in> {''image/svg+xml'', ''text/xml'', ''application/xml''} \<or>
     endsWith (file_name f3) ''.svg'') \<longrightarrow>
      isValidFile (Some f3) = \<lparr>valid = True, error = None\<rparr>) \<and>
   isValidFile (Some \<lparr>file_size = 11534336, file_type = ''image/svg+xml'', file_name = n\<rparr>)
     = \<lparr>valid = False, error = Some ''File size exceeds 10MB limit''\<rparr> \<and>
   isValidFile (Some \<lparr>file_size = 100, file_type = [], file_name = stem @ ''.svg''\<rparr>)
     = \<lparr>valid = True, error = None\<rparr>"
proof -
  have e: "endsWith (stem @ ''.svg'') ''.svg''"
    using endsWith_iff by blast
  show ?thesis
    using e by (auto simp: isValidFile_def maxSize_def validTypes_def)
qed

theorem isValidFile_cases_witness:
  "isValidFile (Some \<lparr>file_size = 11534336, file_type = ''image/svg+xml'', file_name = ''large.svg''\<rparr>)
     = \<lparr>valid = False, error = Some ''File size exceeds 10MB limit''\<rparr> \<and>
   isValidFile (Some \<lparr>file_size = 7, file_type = ''image/png'', file_name = ''test.png''\<rparr>)
     = \<lparr>valid = False, error = Some ''File must be an SVG file''\<rparr> \<and>
   isValidFile (Some \<lparr>file_size = 100, file_type = [], file_name = ''test.svg''\<rparr>)
     = \<lparr>valid = True, error = None\<rparr>"
  using isValidFile_cases
    [of "\<lparr>file_size = 11534336, file_type = ''image/svg+xml'', file_name = ''large.svg''\<rparr>"
        "\<lparr>file_size = 7, file_type = ''image/png'', file_name = ''test.png''\<rparr>"
        "\<lparr>file_size = 100, file_type = [], file_name = ''test.svg''\<rparr>"]
  by (simp add: endsWith_def)

section \<open>Counting images\<close>

text \<open>
  Claim C5. \<open>countImages\<close> is the length of what \<open>extractImages\<close> returns when that
  succeeds, and 0 when \<open>extractImages\<close> fails, be it on validation or on a parse error;
  \<open>countImages\<close> itself always returns a number.
\<close>

theorem countImages_extractImages:
  "(extractImages parseFromString now s1 = Inr images \<longrightarrow>
      countImages parseFromString now s1 = length images) \<and>
   (extractImages parseFromString now s2 = Inl err \<longrightarrow>
      countImages parseFromString now s2 = 0) \<and>
   (\<not> valid (isValidSvg s3) \<longrightarrow> countImages parseFromString now s3 = 0) \<and>
   (querySelector (parseFromString (the s4)) ''parsererror'' \<noteq> None \<longrightarrow>
      countImages parseFromString now s4 = 0)"
  by (auto simp: countImages_def extractImages_def Let_def split: option.splits)

theorem countImages_extractImages_witness:
  "extractImages sampleParser (clockAt 0) (Some twoImagesSvg) =
     Inr [\<lparr>dataUrl = Some ''data:image/png;base64,ABC'', format = Some ''image/png'',
            index = Some 0, img_size = Some 2, img_id = Some ''img-0-0''\<rparr>,
          \<lparr>dataUrl = Some ''data:image/png;base64,XYZ'', format = Some ''image/png'',
            index = Some 1, img_size = Some 2, img_id = Some ''img-0-1''\<rparr>] \<and>
   countImages sampleParser (clockAt 0) (Some twoImagesSvg) = 2 \<and>
   extractImages sampleParser (clockAt 0) (Some malformedSvg) =
     Inl (ParseError ''Failed to parse SVG content. The SVG may be malformed.'') \<and>
   countImages sampleParser (clockAt 0) (Some malformedSvg) = 0 \<and>
   \<not> valid (isValidSvg (Some ''not svg'')) \<and>
   countImages sampleParser (clockAt 0) (Some ''not svg'') = 0 \<and>
   querySelector (sampleParser (the (Some malformedSvg))) ''parsererror'' \<noteq> None"
proof -
  have ok: "extractImages sampleParser (clockAt 0) (Some twoImagesSvg) =
     Inr [\<lparr>dataUrl = Some ''data:image/png;base64,ABC'', format = Some ''image/png'',
            index = Some 0, img_size = Some 2, img_id = Some ''img-0-0''\<rparr>,
          \<lparr>dataUrl = Some ''data:image/png;base64,XYZ'', format = Some ''image/png'',
            index = Some 1, img_size = Some 2, img_id = Some ''img-0-1''\<rparr>]"
    by code_simp
  have bad: "extractImages sampleParser (clockAt 0) (Some malformedSvg) =
     Inl (ParseError ''Failed to parse SVG content. The SVG may be malformed.'')"
    by code_simp
  have inv: "\<not> valid (isValidSvg (Some ''not svg''))"
    by code_simp
  have pe: "querySelector (sampleParser (the (Some malformedSvg))) ''parsererror'' \<noteq> None"
    by code_simp
  show ?thesis
    using ok bad inv pe
      countImages_extractImages [of sampleParser "clockAt 0" "Some twoImagesSvg" _
         "Some malformedSvg" _ "Some ''not svg''" "Some malformedSvg"]
    by simp
qed

section \<open>The file name policy\<close>

text \<open>
  Claim C7, as amended. For a position index \<open>i\<close> below \<open>2\<^sup>5\<^sup>3\<close>, \<open>generateFilename\<close>
  returns \<^verbatim>\<open>image-\<close>, the decimal \<open>i + 1\<close>, a dot and an extension. The extension is the
  text of the format between its first \<^verbatim>\<open>/\<close> and the next \<^verbatim>\<open>/\<close> (or the end), and
  \<^verbatim>\<open>png\<close> when the format is absent or that text is empty (no \<^verbatim>\<open>/\<close>, or nothing behind
  it). For a format with a non-empty text after its \<^verbatim>\<open>/\<close> and no second \<^verbatim>\<open>/\<close>, the
  extension is the text after the \<^verbatim>\<open>/\<close>. The three examples of the specification hold.
\<close>

theorem generateFilename_pattern:
  "(i < 2 ^ 53 \<longrightarrow>
      generateFilename im i =
        ''image-'' @ toString (i + 1) @ ''.'' @
          (if subtype (format im) = [] then ''png'' else subtype (format im))) \<and>
   (i < 2 ^ 53 \<and> format im2 = Some f \<and> afterFirst CHR ''/'' f \<noteq> [] \<and>
    CHR ''/'' \<notin> set (afterFirst CHR ''/'' f) \<longrightarrow>
      generateFilename im2 i = ''image-'' @ toString (i + 1) @ ''.'' @ afterFirst CHR ''/'' f) \<and>
   (i < 2 ^ 53 \<and> format im3 = None \<longrightarrow>
      generateFilename im3 i = ''image-'' @ toString (i + 1) @ ''.png'') \<and>
   generateFilename \<lparr>dataUrl = d, format = Some ''image/png'', index = n, img_size = z, img_id = k\<rparr> 0
     = ''image-1.png'' \<and>
   generateFilename \<lparr>dataUrl = d, format = Some ''image/jpeg'', index = n, img_size = z, img_id = k\<rparr> 5
     = ''image-6.jpeg'' \<and>
   generateFilename \<lparr>dataUrl = d, format = None, index = n, img_size = z, img_id = k\<rparr> 0
     = ''image-1.png''"
proof -
  have gen: "generateFilename im i =
     ''image-'' @ toString (i + 1) @ ''.'' @
       (if subtype (format im) = [] then ''png'' else subtype (format im))" for im i
  proof (cases "truthy (format im)")
    case True
    then obtain f where f: "format im = Some f" "f \<noteq> []"
      by (auto simp: truthy_def split: option.splits)
    then have "or_default (format im) ''image/png'' = f"
      by (simp add: or_default_def truthy_def)
    then show ?thesis
      using f by (simp add: generateFilename_def Let_def segment_after subtype_def)
  next
    case False
    then have "subtype (format im) = []"
      by (auto simp: truthy_def subtype_def afterFirst_def split: option.splits)
    moreover have "or_default (format im) ''image/png'' = ''image/png''"
      using False by (simp add: or_default_def)
    moreover have "or_default (elemAt (split CHR ''/'' ''image/png'') 1) ''png'' = ''png''"
      by (simp add: or_default_def truthy_def elemAt_def)
    ultimately show ?thesis
      by (simp add: generateFilename_def Let_def)
  qed
  have whole: "subtype (Some f) = afterFirst CHR ''/'' f"
    if "CHR ''/'' \<notin> set (afterFirst CHR ''/'' f)"
    using that by (auto simp: subtype_def takeWhile_eq_all_conv)
  have absent: "subtype None = []"
    by (simp add: subtype_def afterFirst_def)
  have png: "subtype (Some ''image/png'') = ''png''"
    and jpeg: "subtype (Some ''image/jpeg'') = ''jpeg''"
    by (simp_all add: subtype_def afterFirst_def)
  have one: "toString (0 + 1) = ''1''" and six: "toString (5 + 1) = ''6''"
    by (simp_all add: toString_digit digit_def)
  have c1: "i < 2 ^ 53 \<longrightarrow>
      generateFilename im i = ''image-'' @ toString (i + 1) @ ''.'' @
       (if subtype (format im) = [] then ''png'' else subtype (format im))"
    using gen [of im i] by (rule impI)
  have c2: "i < 2 ^ 53 \<and> format im2 = Some f \<and> afterFirst CHR ''/'' f \<noteq> [] \<and>
      CHR ''/'' \<notin> set (afterFirst CHR ''/'' f) \<longrightarrow>
      generateFilename im2 i = ''image-'' @ toString (i + 1) @ ''.'' @ afterFirst CHR ''/'' f"
    using whole by (simp add: gen)
  have c3: "i < 2 ^ 53 \<and> format im3 = None \<longrightarrow>
      generateFilename im3 i = ''image-'' @ toString (i + 1) @ ''.png''"
    by (simp add: gen absent)
  have c4: "generateFilename \<lparr>dataUrl = d, format = Some ''image/png'', index = n, img_size = z, img_id = k\<rparr> 0
     = ''image-1.png''"
    by (simp only: gen image.simps png one) simp
  have c5: "generateFilename \<lparr>dataUrl = d, format = Some ''image/jpeg'', index = n, img_size = z, img_id = k\<rparr> 5
     = ''image-6.jpeg''"
    by (simp only: gen image.simps jpeg six) simp
  have c6: "generateFilename \<lparr>dataUrl = d, format = None, index = n, img_size = z, img_id = k\<rparr> 0
     = ''image-1.png''"
    by (simp only: gen image.simps absent one) simp
  show ?thesis
    by (rule conjI [OF c1 conjI [OF c2 conjI [OF c3 conjI [OF c4 conjI [OF c5 c6]]]]])
qed

theorem generateFilename_pattern_witness:
  "(9 :: nat) < 2 ^ 53 \<and>
   generateFilename \<lparr>dataUrl = None, format = Some ''image/svg+xml'', index = None,
      img_size = None, img_id = None\<rparr> 9 = ''image-10.svg+xml'' \<and>
   generateFilename \<lparr>dataUrl = None, format = None, index = None,
      img_size = None, img_id = None\<rparr> 9 = ''image-10.png''"
  using generateFilename_pattern
    [of 9 "\<lparr>dataUrl = None, format = None, index = None, img_size = None, img_id = None\<rparr>"
      "\<lparr>dataUrl = None, format = Some ''image/svg+xml'', index = None,
      img_size = None, img_id = None\<rparr>" "''image/svg+xml''"
      "\<lparr>dataUrl = None, format = None, index = None, img_size = None, img_id = None\<rparr>"]
  by (simp add: subtype_def afterFirst_def toString_digit toString_more digit_def)

text \<open>
  The claim as stated, with the extension always the text after the \<^verbatim>\<open>/\<close> of a present
  format, fails for the format \<^verbatim>\<open>image/\<close>: the text after the \<^verbatim>\<open>/\<close> is empty, and the
  code falls back to \<^verbatim>\<open>png\<close>.
\<close>

theorem generateFilename_after_slash_counterexample:
  "generateFilename \<lparr>dataUrl = Some ''data:image/;base64,AAAA'', format = Some ''image/'',
      index = Some 0, img_size = Some 3, img_id = Some ''img-0-0''\<rparr> 0 = ''image-1.png'' \<and>
   ''image-'' @ toString (0 + 1) @ ''.'' @ afterFirst CHR ''/'' ''image/'' = ''image-1.''"
  by (simp add: generateFilename_def afterFirst_def toString_digit digit_def or_default_def
      truthy_def elemAt_def)

section \<open>Validation failures of the extractor\<close>

text \<open>
  Claim C3, as amended. When validation reports the content invalid, \<open>extractImages\<close> fails
  with a plain \<open>Error\<close> (not a \<open>ValidationError\<close>) whose message is the validation's error
  string: \<^verbatim>\<open>SVG content is empty\<close> for absent, empty or white-space-only content,
  \<^verbatim>\<open>Content does not appear to be valid SVG\<close> for other text without \<^verbatim>\<open><svg\<close>. The
  failure does not depend on the parser: it is raised before parsing.
\<close>

theorem extractImages_invalid:
  "((\<forall>c\<in>set s1. isWhiteSpace c) \<longrightarrow>
      extractImages parseFromString now (Some s1) = Inl (Error ''SVG content is empty'')) \<and>
   ((\<exists>c\<in>set s2. \<not> isWhiteSpace c) \<and> \<not> includesStr s2 ''<svg'' \<longrightarrow>
      extractImages parseFromString now (Some s2) =
        Inl (Error ''Content does not appear to be valid SVG'')) \<and>
   (\<not> valid (isValidSvg content) \<longrightarrow>
      (\<exists>msg. error (isValidSvg content) = Some msg \<and>
         extractImages parseFromString now content = Inl (Error msg))) \<and>
   extractImages parseFromString now None = Inl (Error ''SVG content is empty'')"
proof -
  have c1: "(\<forall>c\<in>set s1. isWhiteSpace c) \<longrightarrow>
      extractImages parseFromString now (Some s1) = Inl (Error ''SVG content is empty'')"
    by (simp add: extractImages_def isValidSvg_empty)
  have c2: "(\<exists>c\<in>set s2. \<not> isWhiteSpace c) \<and> \<not> includesStr s2 ''<svg'' \<longrightarrow>
      extractImages parseFromString now (Some s2) =
        Inl (Error ''Content does not appear to be valid SVG'')"
    using isValidSvg_not_svg [of s2] by (simp add: extractImages_def)
  have c3: "\<not> valid (isValidSvg content) \<longrightarrow>
      (\<exists>msg. error (isValidSvg content) = Some msg \<and>
         extractImages parseFromString now content = Inl (Error msg))"
    by (simp add: extractImages_def isValidSvg_def split: if_splits)
  have c4: "extractImages parseFromString now None = Inl (Error ''SVG content is empty'')"
    by (simp add: extractImages_def isValidSvg_def truthy_def)
  show ?thesis
    by (rule conjI [OF c1 conjI [OF c2 conjI [OF c3 c4]]])
qed

theorem extractImages_invalid_witness:
  "extractImages sampleParser (clockAt 0) (Some ''   '') = Inl (Error ''SVG content is empty'') \<and>
   extractImages sampleParser (clockAt 0) (Some ''<div>Not SVG</div>'') =
     Inl (Error ''Content does not appear to be valid SVG'') \<and>
   \<not> valid (isValidSvg (Some [])) \<and>
   extractImages sampleParser (clockAt 0) (Some []) = Inl (Error ''SVG content is empty'')"
proof -
  have ws: "\<forall>c\<in>set ''   ''. isWhiteSpace c"
    by (simp add: isWhiteSpace_def)
  have nws: "\<exists>c\<in>set ''<div>Not SVG</div>''. \<not> isWhiteSpace c"
    by (simp add: isWhiteSpace_def)
  have nsvg: "\<not> includesStr ''<div>Not SVG</div>'' ''<svg''"
    by (simp add: startsWith_def)
  have inv: "\<not> valid (isValidSvg (Some []))"
    by (simp add: isValidSvg_def truthy_def)
  have e: "error (isValidSvg (Some [])) = Some ''SVG content is empty''"
    by (simp add: isValidSvg_def truthy_def)
  show ?thesis
    using ws nws nsvg inv e
      extractImages_invalid [of "''   ''" sampleParser "clockAt 0" "''<div>Not SVG</div>''" "Some []"]
    by simp
qed

text \<open>
  The claim as stated asks for a \<open>ValidationError\<close>; on the empty string the extractor
  throws a plain \<open>Error\<close>.
\<close>

theorem extractImages_validation_counterexample:
  "extractImages sampleParser (clockAt 0) (Some []) = Inl (Error ''SVG content is empty'') \<and>
   \<not> isValidationError (Error ''SVG content is empty'')"
  by (simp add: extractImages_def isValidSvg_def truthy_def)

section \<open>Packaging a list without payloads\<close>

text \<open>
  Claim C2 says that a non-empty list in which no image has base64 data fails with
  \<^verbatim>\<open>No valid images to include in ZIP\<close>. That error is thrown inside the \<^verbatim>\<open>try\<close>
  block, so the \<^verbatim>\<open>catch\<close> replaces it: for the one image \<^verbatim>\<open>data:image/png\<close> the caller
  sees the generic failure message instead.
\<close>

theorem generateZip_no_valid_images:
  "generateZip generateAsync
     (Some [\<lparr>dataUrl = Some ''data:image/png'', format = Some ''image/png'', index = Some 0,
             img_size = Some 0, img_id = Some ''img-0-0''\<rparr>]) progressCallback =
     ([], Inl (Error ''Failed to generate ZIP file. Please try downloading images individually.''))"
proof -
  have "\<not> hasBase64Data \<lparr>dataUrl = Some ''data:image/png'', format = Some ''image/png'',
      index = Some 0, img_size = Some 0, img_id = Some ''img-0-0''\<rparr>"
    by (simp add: hasBase64Data_def elemAt_def truthy_def)
  then show ?thesis
    by (simp add: generateZip_def zipImages_def ZIP_GENERATION_FAILED_def)
qed

section \<open>Indexes of the extracted images\<close>

text \<open>
  Claim C1, as amended. When \<open>extractImages\<close> succeeds it returns exactly one record per
  image element whose reference (\<^verbatim>\<open>href\<close>, else \<^verbatim>\<open>xlink:href\<close>) starts with
  \<^verbatim>\<open>data:image/\<close>, in document order, carrying that reference. The index of a record is
  the position of its element among all image elements of the document, skipped ones
  included; so the indexes increase strictly, and they are \<open>0..N-1\<close> when no element is
  skipped.
\<close>

theorem extractImages_index:
  assumes "extractImages parseFromString now content = Inr images"
    and "els = querySelectorAll (parseFromString (the content)) ''image''"
  shows "length images = length (filter isEmbedded els) \<and>
         map dataUrl images = map imageRef (filter isEmbedded els) \<and>
         map index images = map (Some \<circ> fst) (filter (isEmbedded \<circ> snd) (enumerate 0 els)) \<and>
         sorted_wrt (<) (map (the \<circ> index) images) \<and>
         ((\<forall>img\<in>set els. isEmbedded img) \<longrightarrow> map index images = map Some [0..<length images])"
proof -
  let ?sel = "filter (isEmbedded \<circ> snd) (enumerate 0 els)"
  have im: "images = map (extracted now) ?sel"
    using assms extractImages_Inr by simp
  have len: "length images = length (filter isEmbedded els)"
    using im snd_filter_enumerate [of isEmbedded 0 els, THEN arg_cong, of length] by simp
  have urls: "map dataUrl images = map imageRef (filter isEmbedded els)"
  proof -
    have "map dataUrl images = map (imageRef \<circ> snd) ?sel"
      unfolding im by (simp add: dataUrl_extracted)
    also have "\<dots> = map imageRef (map snd ?sel)" by simp
    finally show ?thesis by (simp only: snd_filter_enumerate)
  qed
  have idx: "map index images = map (Some \<circ> fst) ?sel"
    unfolding im by (simp add: index_extracted)
  have "map (the \<circ> index) images = map fst ?sel"
    unfolding im by (simp add: index_extracted)
  then have srt: "sorted_wrt (<) (map (the \<circ> index) images)"
    by (simp only: fst_filter_enumerate_sorted)
  have all: "(\<forall>img\<in>set els. isEmbedded img) \<longrightarrow> map index images = map Some [0..<length images]"
  proof
    assume a: "\<forall>img\<in>set els. isEmbedded img"
    then have "\<forall>p\<in>set (enumerate 0 els). (isEmbedded \<circ> snd) p"
      by (auto simp: in_set_enumerate_eq)
    then have s: "?sel = enumerate 0 els" by (simp only: filter_True)
    have l: "length images = length els" using a len by simp
    have "map index images = map (Some \<circ> fst) (enumerate 0 els)"
      using idx s by simp
    also have "\<dots> = map Some (map fst (enumerate 0 els))"
      by (simp only: map_map)
    also have "\<dots> = map Some [0..<length els]"
      by (simp add: map_fst_enumerate)
    finally show "map index images = map Some [0..<length images]"
      by (simp only: l)
  qed
  show ?thesis
    by (rule conjI [OF len conjI [OF urls conjI [OF idx conjI [OF srt all]]]])
qed

theorem extractImages_index_witness:
  "list_all isEmbedded (querySelectorAll (sampleParser (the (Some twoImagesSvg))) ''image'') \<and>
   (case extractImages sampleParser (clockAt 0) (Some twoImagesSvg) of
      Inl e \<Rightarrow> False
    | Inr images \<Rightarrow> length images = 2 \<and> map index images = map Some [0..<length images] \<and>
        sorted_wrt (<) (map (the \<circ> index) images))"
proof -
  have two: "extractImages sampleParser (clockAt 0) (Some twoImagesSvg) =
     Inr [\<lparr>dataUrl = Some ''data:image/png;base64,ABC'', format = Some ''image/png'',
            index = Some 0, img_size = Some 2, img_id = Some ''img-0-0''\<rparr>,
          \<lparr>dataUrl = Some ''data:image/png;base64,XYZ'', format = Some ''image/png'',
            index = Some 1, img_size = Some 2, img_id = Some ''img-0-1''\<rparr>]"
    by code_simp
  have all: "\<forall>img\<in>set (querySelectorAll (sampleParser (the (Some twoImagesSvg))) ''image'').
      isEmbedded img"
    by code_simp
  note r = extractImages_index [OF two refl]
  note idx = r [THEN conjunct2, THEN conjunct2, THEN conjunct2, THEN conjunct2, THEN mp, OF all]
  note srt = r [THEN conjunct2, THEN conjunct2, THEN conjunct2, THEN conjunct1]
  have "case extractImages sampleParser (clockAt 0) (Some twoImagesSvg) of
      Inl e \<Rightarrow> False
    | Inr images \<Rightarrow> length images = 2 \<and> map index images = map Some [0..<length images] \<and>
        sorted_wrt (<) (map (the \<circ> index) images)"
    unfolding two using idx srt by simp
  moreover have "list_all isEmbedded
      (querySelectorAll (sampleParser (the (Some twoImagesSvg))) ''image'')"
    using all by (simp only: list_all_iff)
  ultimately show ?thesis by (intro conjI)
qed

text \<open>
  The claim as stated, with indexes \<open>0..N-1\<close> whatever is skipped, fails when an external
  image comes first: the one record has index 1.
\<close>

theorem extractImages_index_counterexample:
  "(case extractImages sampleParser (clockAt 0) (Some externalFirstSvg) of
      Inl e \<Rightarrow> False
    | Inr images \<Rightarrow> length images = 1 \<and> map index images = [Some 1] \<and>
        map index images \<noteq> map Some [0..<length images])"
proof -
  have mixed: "extractImages sampleParser (clockAt 0) (Some externalFirstSvg) =
     Inr [\<lparr>dataUrl = Some ''data:image/png;base64,ABC123'', format = Some ''image/png'',
            index = Some 1, img_size = Some 4, img_id = Some ''img-0-1''\<rparr>]"
    by code_simp
  show ?thesis unfolding mixed by simp
qed

section \<open>The size estimate\<close>



section \<open>The fallback to the legacy attribute\<close>

text \<open>
  Claim C10. An image element whose \<^verbatim>\<open>href\<close> is present but empty and whose
  \<^verbatim>\<open>xlink:href\<close> holds a \<^verbatim>\<open>data:image/\<close> reference is not skipped: the result has a
  record with that reference, at the position of the element.
\<close>

theorem extractImages_empty_href:
  assumes "extractImages parseFromString now content = Inr images"
    and "(j, img) \<in> set (enumerate 0 (querySelectorAll (parseFromString (the content)) ''image''))"
    and "getAttribute img ''href'' = Some []"
    and "getAttribute img ''xlink:href'' = Some u"
    and "startsWith u ''data:image/''"
  shows "\<exists>im\<in>set images. dataUrl im = Some u \<and> index im = Some j"
proof -
  have r: "imageRef img = Some u"
    using assms(3,4) by (simp add: imageRef_def or_else_def truthy_def)
  have e: "isEmbedded img"
    using r assms(5) assms(4) by (auto simp: isEmbedded_def truthy_def startsWith_def)
  have "extracted now (j, img) \<in> set images"
    using extractImages_Inr [OF assms(1)] assms(2) e by auto
  moreover have "dataUrl (extracted now (j, img)) = Some u"
    using e r by (simp add: dataUrl_extracted)
  moreover have "index (extracted now (j, img)) = Some j"
    by (simp add: index_extracted)
  ultimately show ?thesis by blast
qed

theorem extractImages_empty_href_witness:
  "extractImages sampleParser (clockAt 0) (Some emptyHrefSvg) =
     Inr [\<lparr>dataUrl = Some ''data:image/png;base64,ABC123'', format = Some ''image/png'',
            index = Some 0, img_size = Some 4, img_id = Some ''img-0-0''\<rparr>] \<and>
   getAttribute (Element ''image'' [(''href'', []), (''xlink:href'', ''data:image/png;base64,ABC123'')] [])
     ''href'' = Some [] \<and>
   (\<exists>im\<in>set [\<lparr>dataUrl = Some ''data:image/png;base64,ABC123'', format = Some ''image/png'',
            index = Some 0, img_size = Some 4, img_id = Some ''img-0-0''\<rparr>].
      dataUrl im = Some ''data:image/png;base64,ABC123'' \<and> index im = Some 0)"
proof -
  let ?img = "Element ''image'' [(''href'', []), (''xlink:href'', ''data:image/png;base64,ABC123'')] []"
  have ex: "extractImages sampleParser (clockAt 0) (Some emptyHrefSvg) =
     Inr [\<lparr>dataUrl = Some ''data:image/png;base64,ABC123'', format = Some ''image/png'',
            index = Some 0, img_size = Some 4, img_id = Some ''img-0-0''\<rparr>]"
    by code_simp
  have pos: "(0, ?img) \<in> set (enumerate 0 (querySelectorAll (sampleParser (the (Some emptyHrefSvg))) ''image''))"
    by code_simp
  have h: "getAttribute ?img ''href'' = Some []"
    by (simp add: getAttribute_def)
  have x: "getAttribute ?img ''xlink:href'' = Some ''data:image/png;base64,ABC123''"
    by (simp add: getAttribute_def)
  have s: "startsWith ''data:image/png;base64,ABC123'' ''data:image/''"
    by (simp add: startsWith_def)
  note extractImages_empty_href [OF ex pos h x s]
  with ex h show ?thesis by (intro conjI)
qed

end
